theory Spec2Isabelle
  imports Complex_Main
begin

section \<open>The access-log exporter: data model\<close>

text \<open>
  The program is \<^verbatim>\<open>main.go\<close>: \<^verbatim>\<open>Metrics.Init\<close> registers the metric
  families, \<^verbatim>\<open>processLogFile\<close> reads the lines of the follower's channel and
  updates the families from the fields of each parsed line.

  Collaborators of \<^verbatim>\<open>processLogFile\<close> that are not part of \<^verbatim>\<open>main.go\<close>:
  \<^item> the parser (\<^verbatim>\<open>*gonx.Parser\<close>) is an argument of \<^verbatim>\<open>processLogFile\<close> in the
    source and an argument \<open>P\<close> of the model: the function \<^verbatim>\<open>ParseString\<close> from a
    line to an error or an entry;
  \<^item> \<^verbatim>\<open>strconv.ParseFloat\<close>, reached through \<^verbatim>\<open>FloatField\<close>, is an argument
    \<open>pf\<close>; the type \<open>'f\<close> of floating-point numbers stays abstract, and the test
    \<^verbatim>\<open>v < 0\<close> on it is an argument \<open>neg\<close>;
  \<^item> the metric backend records what it is handed: a counter that is only ever
    incremented is the number of its increments, a counter that receives amounts is the
    sequence of amounts added, a summary or histogram is the sequence of observations.
    A counter refuses an amount below zero with a panic. What else the backend checks
    on the label values depends on its version, which the sources do not fix, and is not
    part of the model.
\<close>

subsection \<open>Errors, outcomes, log output\<close>

datatype error =
    ConfigError         \<comment> \<open>the format template is refused\<close>
  | ParseError string string   \<comment> \<open>the line does not match; carries the line and the reason\<close>
  | FieldError string   \<comment> \<open>the named field is absent or not numeric\<close>

datatype panic =
    IndexOutOfRange     \<comment> \<open>element 0 of an empty slice\<close>
  | CounterDecrease     \<comment> \<open>\<^verbatim>\<open>Add\<close> of an amount below zero\<close>

datatype outcome =
    Next         \<comment> \<open>the loop body finished; the loop takes the next line\<close>
  | Exit nat     \<comment> \<open>\<^verbatim>\<open>os.Exit(code)\<close>, as \<^verbatim>\<open>log.Fatalf\<close> does after printing\<close>
  | Panic panic  \<comment> \<open>a run-time panic ends the process\<close>

datatype logLine =
    ParseFailure string error  \<comment> \<open>\<^verbatim>\<open>"Error while parsing line '%s': '%s'"\<close>\<close>
  | ParsedLine string          \<comment> \<open>\<^verbatim>\<open>"Parsed line '%s'"\<close>\<close>

subsection \<open>Entries and their accessors\<close>

text \<open>
  Modelled from the spec: \<^verbatim>\<open>gonx.Entry\<close> is declared outside \<^verbatim>\<open>main.go\<close>. The
  spec's ParsedEntry is a mapping from field name to raw string value; reading a field
  fails when the field is absent, and reading it as a number fails when it is absent or
  its text is not numeric.
\<close>

type_synonym Entry = "string \<rightharpoonup> string"

definition Field :: "Entry \<Rightarrow> string \<Rightarrow> error + string" where
  "Field entry name =
     (case entry name of None \<Rightarrow> Inl (FieldError name) | Some v \<Rightarrow> Inr v)"

definition FloatField :: "(string \<Rightarrow> 'f option) \<Rightarrow> Entry \<Rightarrow> string \<Rightarrow> error + 'f" where
  "FloatField pf entry name =
     (case Field entry name of
        Inl e \<Rightarrow> Inl e
      | Inr tmp \<Rightarrow> (case pf tmp of None \<Rightarrow> Inl (FieldError name) | Some v \<Rightarrow> Inr v))"

subsection \<open>\<^verbatim>\<open>strings.Fields\<close>\<close>

text \<open>
  Go's \<^verbatim>\<open>strings.Fields\<close> splits a string around runs of white space and returns
  the non-empty pieces; for a string of white space only (or the empty string) the result
  is the empty slice. A string is a sequence of bytes. In ASCII text white space is the
  \<^verbatim>\<open>asciiSpace\<close> table: tab, line feed, vertical tab, form feed, carriage return and
  space. Once a byte above \<open>0x7F\<close> occurs the string is decoded as UTF-8 and
  \<^verbatim>\<open>unicode.IsSpace\<close> decides: the six ASCII characters and U+0085, U+00A0, U+1680,
  U+2000 to U+200A, U+2028, U+2029, U+202F, U+205F and U+3000.

  \<open>unicodeSpace\<close> lists the UTF-8 encodings of the characters beyond ASCII. Each starts
  with a lead byte, and a lead byte is never taken as the continuation of another
  character, so the decoder reaches a white-space character exactly where its bytes
  stand. \<open>spaceWidth s\<close> is the number of bytes of the white-space character at the head
  of \<open>s\<close>, and 0 when there is none.
\<close>

definition asciiSpace :: "char \<Rightarrow> bool" where
  "asciiSpace c \<longleftrightarrow>
     c = CHR 0x09 \<or> c = CHR 0x0A \<or> c = CHR 0x0B \<or> c = CHR 0x0C \<or> c = CHR 0x0D \<or> c = CHR 0x20"

definition unicodeSpace :: "string list" where
  "unicodeSpace =
     [[CHR 0xC2, CHR 0x85], [CHR 0xC2, CHR 0xA0], [CHR 0xE1, CHR 0x9A, CHR 0x80],
      [CHR 0xE2, CHR 0x80, CHR 0x80], [CHR 0xE2, CHR 0x80, CHR 0x81],
      [CHR 0xE2, CHR 0x80, CHR 0x82], [CHR 0xE2, CHR 0x80, CHR 0x83],
      [CHR 0xE2, CHR 0x80, CHR 0x84], [CHR 0xE2, CHR 0x80, CHR 0x85],
      [CHR 0xE2, CHR 0x80, CHR 0x86], [CHR 0xE2, CHR 0x80, CHR 0x87],
      [CHR 0xE2, CHR 0x80, CHR 0x88], [CHR 0xE2, CHR 0x80, CHR 0x89],
      [CHR 0xE2, CHR 0x80, CHR 0x8A], [CHR 0xE2, CHR 0x80, CHR 0xA8],
      [CHR 0xE2, CHR 0x80, CHR 0xA9], [CHR 0xE2, CHR 0x80, CHR 0xAF],
      [CHR 0xE2, CHR 0x81, CHR 0x9F], [CHR 0xE3, CHR 0x80, CHR 0x80]]"

definition spaceWidth :: "string \<Rightarrow> nat" where
  "spaceWidth s =
     (case s of
        [] \<Rightarrow> 0
      | c # _ \<Rightarrow>
          if asciiSpace c then 1
          else (case List.find (\<lambda>p. take (length p) s = p) unicodeSpace of
                  None \<Rightarrow> 0
                | Some p \<Rightarrow> length p))"

text \<open>
  \<open>fieldsFrom cur skip s\<close> scans \<open>s\<close> with the piece \<open>cur\<close> begun so far; \<open>skip\<close>
  counts the bytes still to pass of a white-space character that has been recognised.
\<close>

fun fieldsFrom :: "string \<Rightarrow> nat \<Rightarrow> string \<Rightarrow> string list" where
  "fieldsFrom cur skip [] = (if cur = [] then [] else [cur])"
| "fieldsFrom cur skip (c # s) =
     (if 0 < skip then fieldsFrom cur (skip - 1) s
      else (case spaceWidth (c # s) of
              0 \<Rightarrow> fieldsFrom (cur @ [c]) 0 s
            | Suc w \<Rightarrow> (if cur = [] then fieldsFrom [] w s else cur # fieldsFrom [] w s)))"

definition Fields :: "string \<Rightarrow> string list" where
  "Fields s = fieldsFrom [] 0 s"

subsection \<open>The metric families\<close>

text \<open>
  The struct \<^verbatim>\<open>Metrics\<close>. A vector is keyed by the tuple of label values handed to
  \<^verbatim>\<open>WithLabelValues\<close>.
\<close>

record 'f Metrics =
  countTotal :: "string list \<Rightarrow> nat"
  bytesTotal :: "string list \<Rightarrow> 'f list"
  upstreamSeconds :: "string list \<Rightarrow> 'f list"
  upstreamSecondsHist :: "string list \<Rightarrow> 'f list"
  upstreamBytes :: "string list \<Rightarrow> 'f list"
  responseSeconds :: "string list \<Rightarrow> 'f list"
  responseSecondsHist :: "string list \<Rightarrow> 'f list"
  responseBytes :: "string list \<Rightarrow> 'f list"
  parseErrorsTotal :: nat

text \<open>The label names every vector is registered with in \<^verbatim>\<open>Metrics.Init\<close>.\<close>

definition labels :: "string list" where
  "labels = (replicate 2 [])[0 := ''status'', 1 := ''method'']"

definition Init :: "'f Metrics" where
  "Init = \<lparr> countTotal = (\<lambda>_. 0), bytesTotal = (\<lambda>_. []),
            upstreamSeconds = (\<lambda>_. []), upstreamSecondsHist = (\<lambda>_. []),
            upstreamBytes = (\<lambda>_. []),
            responseSeconds = (\<lambda>_. []), responseSecondsHist = (\<lambda>_. []),
            responseBytes = (\<lambda>_. []), parseErrorsTotal = 0 \<rparr>"

text \<open>
  \<^verbatim>\<open>vec.WithLabelValues(lv...).Inc()\<close>, \<^verbatim>\<open>.Add(v)\<close> and \<^verbatim>\<open>.Observe(v)\<close>.
  \<^verbatim>\<open>Add\<close> panics on an amount below zero; its result is \<open>None\<close> then.
\<close>

definition Inc :: "string list \<Rightarrow> (string list \<Rightarrow> nat) \<Rightarrow> (string list \<Rightarrow> nat)" where
  "Inc lv vec = vec(lv := vec lv + 1)"

definition Add ::
  "('f \<Rightarrow> bool) \<Rightarrow> string list \<Rightarrow> 'f \<Rightarrow> (string list \<Rightarrow> 'f list) \<Rightarrow> (string list \<Rightarrow> 'f list) option" where
  "Add neg lv v vec = (if neg v then None else Some (vec(lv := vec lv @ [v])))"

definition Observe :: "string list \<Rightarrow> 'f \<Rightarrow> (string list \<Rightarrow> 'f list) \<Rightarrow> (string list \<Rightarrow> 'f list)" where
  "Observe lv v vec = vec(lv := vec lv @ [v])"

subsection \<open>The default format\<close>

text \<open>The default of \<^verbatim>\<open>LogConfig.Format\<close> (line 44).\<close>

definition Format :: string where
  "Format = ''$remote_addr - $remote_user [$time_local] '' @ [CHR 0x22] @ ''$request'' @ [CHR 0x22]
     @ '' $status $body_bytes_sent '' @ [CHR 0x22] @ ''$http_referer'' @ [CHR 0x22]
     @ '' '' @ [CHR 0x22] @ ''$http_user_agent'' @ [CHR 0x22]
     @ '' '' @ [CHR 0x22] @ ''$http_x_forwarded_for'' @ [CHR 0x22] @ '' $request_time''"

text \<open>
  Modelled from the spec: which field names a template declares. The compiler of
  templates is outside \<^verbatim>\<open>main.go\<close>; in the spec a placeholder is the sigil \<open>$\<close>
  followed by an identifier of letters, digits and underscores.
\<close>

definition identChar :: "char \<Rightarrow> bool" where
  "identChar c \<longleftrightarrow>
     c \<in> set ''abcdefghijklmnopqrstuvwxyzABCDEFGHIJKLMNOPQRSTUVWXYZ0123456789_''"

fun placeholders :: "string \<Rightarrow> string list" where
  "placeholders [] = []"
| "placeholders (c # s) =
     (if c = CHR ''$'' then takeWhile identChar s # placeholders s else placeholders s)"

section \<open>The format compiler and the line matcher\<close>

text \<open>
  Modelled from the spec: \<^verbatim>\<open>gonx.NewParser\<close> and \<^verbatim>\<open>gonx.Parser.ParseString\<close> are
  called by \<^verbatim>\<open>main.go\<close> and defined outside it. The definitions of this section
  follow sections 4.1 and 4.2 of the spec.

  A plan is a sequence of tokens, each a literal text or a field name.
\<close>

datatype FormatToken = LiteralToken string | FieldToken string

text \<open>
  The compiler scans the template from left to right. The sigil starts a field token,
  which takes the letters, digits and underscores that follow; every other run of
  characters is a literal token. \<open>scanFrom cur s\<close> scans \<open>s\<close> with the token \<open>cur\<close>
  begun so far.
\<close>

fun scanFrom :: "FormatToken option \<Rightarrow> string \<Rightarrow> FormatToken list" where
  "scanFrom cur [] = (case cur of None \<Rightarrow> [] | Some t \<Rightarrow> [t])"
| "scanFrom cur (c # s) =
     (if c = CHR ''$''
      then (case cur of None \<Rightarrow> [] | Some t \<Rightarrow> [t]) @ scanFrom (Some (FieldToken [])) s
      else (case cur of
              None \<Rightarrow> scanFrom (Some (LiteralToken [c])) s
            | Some (LiteralToken l) \<Rightarrow> scanFrom (Some (LiteralToken (l @ [c]))) s
            | Some (FieldToken n) \<Rightarrow>
                if identChar c then scanFrom (Some (FieldToken (n @ [c]))) s
                else FieldToken n # scanFrom (Some (LiteralToken [c])) s))"

fun consecutiveFields :: "FormatToken list \<Rightarrow> bool" where
  "consecutiveFields (FieldToken a # FieldToken b # plan) = True"
| "consecutiveFields (t # plan) = consecutiveFields plan"
| "consecutiveFields [] = False"

text \<open>Two field tokens in a row are refused with a ConfigError.\<close>

definition NewParser :: "string \<Rightarrow> error + FormatToken list" where
  "NewParser format =
     (let plan = scanFrom None format
      in if consecutiveFields plan then Inl ConfigError else Inr plan)"

text \<open>
  The matcher walks the plan with a cursor, here the rest of the line. A literal must
  stand at the cursor. A literal that ends in a double quote or an opening bracket tells
  that the field after it ends at the closing character; otherwise a field ends at the
  first character of the next literal, and the last field of the plan ends with the line.
  The field takes the characters up to the first occurrence of that boundary, without it.
  A literal that does not match and a line that ends before the boundary fail with a
  ParseError of the line and the reason; the reason ends with the rest of the line at
  the point of failure.
\<close>

definition closing :: "string \<Rightarrow> char option" where
  "closing l =
     (if l = [] then None
      else if last l = CHR 0x22 then Some (CHR 0x22)
      else if last l = CHR ''['' then Some (CHR '']'')
      else None)"

definition boundary :: "char option \<Rightarrow> FormatToken list \<Rightarrow> char option" where
  "boundary signal plan =
     (case plan of
        [] \<Rightarrow> None
      | t # _ \<Rightarrow>
          (case signal of
             Some c \<Rightarrow> Some c
           | None \<Rightarrow> (case t of LiteralToken (c # _) \<Rightarrow> Some c | _ \<Rightarrow> None)))"

fun matchPlan :: "FormatToken list \<Rightarrow> char option \<Rightarrow> string \<Rightarrow> Entry \<Rightarrow> string + Entry" where
  "matchPlan [] signal rest entry = Inr entry"
| "matchPlan (LiteralToken l # plan) signal rest entry =
     (if take (length l) rest = l
      then matchPlan plan (closing l) (drop (length l) rest) entry
      else Inl (''literal does not match: '' @ rest))"
| "matchPlan (FieldToken name # plan) signal rest entry =
     (case boundary signal plan of
        None \<Rightarrow> matchPlan plan None [] (entry(name \<mapsto> rest))
      | Some b \<Rightarrow>
          if b \<in> set rest
          then matchPlan plan None (dropWhile (\<lambda>c. c \<noteq> b) rest)
                 (entry(name \<mapsto> takeWhile (\<lambda>c. c \<noteq> b) rest))
          else Inl (''line ends before the boundary: '' @ rest))"

definition ParseString :: "FormatToken list \<Rightarrow> string \<Rightarrow> error + Entry" where
  "ParseString plan line =
     (case matchPlan plan None line Map.empty of
        Inl reason \<Rightarrow> Inl (ParseError line reason)
      | Inr entry \<Rightarrow> Inr entry)"

section \<open>\<^verbatim>\<open>processLogFile\<close>\<close>

subsection \<open>The loop body\<close>

text \<open>
  Lines 177 to 185: the two time fields. Each is read on its own and recorded in its
  summary and its histogram only when the read succeeds.
\<close>

definition observeTimes ::
  "(string \<Rightarrow> 'f option) \<Rightarrow> Entry \<Rightarrow> string list \<Rightarrow> 'f Metrics \<Rightarrow> 'f Metrics" where
  "observeTimes pf entry labelValues m =
     (let m3 = (case FloatField pf entry ''upstream_response_time'' of
                  Inr upstreamTime \<Rightarrow>
                    m\<lparr>upstreamSeconds := Observe labelValues upstreamTime (upstreamSeconds m),
                      upstreamSecondsHist := Observe labelValues upstreamTime (upstreamSecondsHist m)\<rparr>
                | Inl _ \<Rightarrow> m)
      in (case FloatField pf entry ''request_time'' of
            Inr responseTime \<Rightarrow>
              m3\<lparr>responseSeconds := Observe labelValues responseTime (responseSeconds m3),
                 responseSecondsHist := Observe labelValues responseTime (responseSecondsHist m3)\<rparr>
          | Inl _ \<Rightarrow> m3))"

text \<open>
  Lines 171 to 185: the updates made once the label values are known. The request count
  goes up first. The body size is added when it reads as a number; an amount below zero
  makes \<^verbatim>\<open>Add\<close> panic, with the count already made and the times not yet read.
\<close>

definition updateMetrics ::
  "(string \<Rightarrow> 'f option) \<Rightarrow> ('f \<Rightarrow> bool) \<Rightarrow> Entry \<Rightarrow> string list \<Rightarrow> 'f Metrics
     \<Rightarrow> outcome \<times> 'f Metrics" where
  "updateMetrics pf neg entry labelValues m =
     (let m1 = m\<lparr>countTotal := Inc labelValues (countTotal m)\<rparr>
      in (case FloatField pf entry ''body_bytes_sent'' of
            Inr bytes \<Rightarrow>
              (case Add neg labelValues bytes (bytesTotal m1) of
                 None \<Rightarrow> (Panic CounterDecrease, m1)
               | Some added \<Rightarrow> (Next, observeTimes pf entry labelValues (m1\<lparr>bytesTotal := added\<rparr>)))
          | Inl _ \<Rightarrow> (Next, observeTimes pf entry labelValues m1)))"

text \<open>
  Lines 158 to 167: the label values. \<^verbatim>\<open>make([]string, 2)\<close> gives two empty strings;
  the status is stored when the field is there; when the request field is there, element 0
  of \<^verbatim>\<open>strings.Fields(request)\<close> is stored, and indexing the empty slice panics.
\<close>

definition labelValuesOf :: "Entry \<Rightarrow> string list option" where
  "labelValuesOf entry =
     (let labelValues = replicate 2 [];
          labelValues = (case Field entry ''status'' of
                           Inr status \<Rightarrow> labelValues[0 := status]
                         | Inl _ \<Rightarrow> labelValues)
      in (case Field entry ''request'' of
            Inr request \<Rightarrow>
              (case Fields request of
                 [] \<Rightarrow> None
               | chunk # _ \<Rightarrow> Some (labelValues[1 := chunk]))
          | Inl _ \<Rightarrow> Some labelValues))"

text \<open>
  One iteration of the loop, lines 151 to 185. The result is the outcome, the metrics and
  the lines written to the log. On a parse error \<^verbatim>\<open>log.Fatalf\<close> prints and ends the
  process with status 1, so the two statements after it are never reached.
\<close>

definition processLine ::
  "(string \<Rightarrow> error + Entry) \<Rightarrow> (string \<Rightarrow> 'f option) \<Rightarrow> ('f \<Rightarrow> bool) \<Rightarrow> string \<Rightarrow> 'f Metrics
     \<Rightarrow> outcome \<times> 'f Metrics \<times> logLine list" where
  "processLine P pf neg line m =
     (case P line of
        Inl err \<Rightarrow> (Exit 1, m, [ParseFailure line err])
      | Inr entry \<Rightarrow>
          (case labelValuesOf entry of
             None \<Rightarrow> (Panic IndexOutOfRange, m, [])
           | Some labelValues \<Rightarrow>
               (case updateMetrics pf neg entry labelValues m of
                  (oc, m') \<Rightarrow> (oc, m', [ParsedLine line]))))"

subsection \<open>The loop\<close>

text \<open>
  \<^verbatim>\<open>for line := range t.Lines()\<close>: the argument is the texts of the lines the channel
  delivers, in order (\<^verbatim>\<open>Lines\<close> of the follower hands out the channel of the tailed
  file). The loop stops at the first iteration that does not finish. The argument
  \<^verbatim>\<open>cfg\<close> of the source is not used in its body.
\<close>

fun processLogFile ::
  "(string \<Rightarrow> error + Entry) \<Rightarrow> (string \<Rightarrow> 'f option) \<Rightarrow> ('f \<Rightarrow> bool) \<Rightarrow> string list \<Rightarrow> 'f Metrics
     \<Rightarrow> outcome \<times> 'f Metrics \<times> logLine list" where
  "processLogFile P pf neg [] m = (Next, m, [])"
| "processLogFile P pf neg (line # rest) m =
     (case processLine P pf neg line m of
        (Next, m', out) \<Rightarrow>
          (case processLogFile P pf neg rest m' of (oc, m'', out') \<Rightarrow> (oc, m'', out @ out'))
      | (oc, m', out) \<Rightarrow> (oc, m', out))"

section \<open>Facts about the model\<close>

subsection \<open>Label names and white space\<close>

lemma replicate_two: "replicate 2 x = [x, x]"
  by (simp add: numeral_2_eq_2)

lemma labels_eq: "labels = [''status'', ''method'']"
  by (simp add: labels_def replicate_two)

lemma spaceWidth_ascii: "asciiSpace c \<Longrightarrow> spaceWidth (c # s) = 1"
  by (simp add: spaceWidth_def)

text \<open>A string of ASCII white space only has no piece.\<close>

lemma Fields_blank: "\<forall>c \<in> set s. asciiSpace c \<Longrightarrow> Fields s = []"
  unfolding Fields_def by (induction s) (simp_all add: spaceWidth_ascii)

subsection \<open>The label values\<close>

text \<open>The derivation panics exactly when the request field is there and holds no token.\<close>

lemma labelValuesOf_None_iff:
  "labelValuesOf entry = None \<longleftrightarrow>
     (\<exists>request. entry ''request'' = Some request \<and> Fields request = [])"
  by (auto simp: labelValuesOf_def Field_def Let_def split: option.splits list.splits)

lemma labelValuesOf_Some:
  "labelValuesOf entry = Some lv \<Longrightarrow>
     lv = [case entry ''status'' of None \<Rightarrow> [] | Some s \<Rightarrow> s,
           case entry ''request'' of None \<Rightarrow> []
           | Some r \<Rightarrow> (case Fields r of [] \<Rightarrow> [] | chunk # _ \<Rightarrow> chunk)]"
  by (auto simp: labelValuesOf_def Field_def Let_def replicate_two split: option.splits list.splits)

lemma labelValuesOf_no_request:
  "entry ''request'' = None \<Longrightarrow>
     labelValuesOf entry = Some [case entry ''status'' of None \<Rightarrow> [] | Some s \<Rightarrow> s, []]"
  by (simp add: labelValuesOf_def Field_def Let_def replicate_two split: option.splits)

lemma labelValuesOf_first_token:
  "entry ''request'' = Some request \<Longrightarrow> Fields request = chunk # chunks \<Longrightarrow>
     labelValuesOf entry = Some [case entry ''status'' of None \<Rightarrow> [] | Some s \<Rightarrow> s, chunk]"
  by (simp add: labelValuesOf_def Field_def Let_def replicate_two split: option.splits)

subsection \<open>One line\<close>

lemma processLine_rejected:
  "P line = Inl err \<Longrightarrow> processLine P pf neg line m = (Exit 1, m, [ParseFailure line err])"
  by (simp add: processLine_def)

lemma processLogFile_rejected:
  "P line = Inl err \<Longrightarrow>
     processLogFile P pf neg (line # rest) m = (Exit 1, m, [ParseFailure line err])"
  by (simp add: processLine_rejected)

lemma processLine_accepted:
  "P line = Inr entry \<Longrightarrow> labelValuesOf entry = Some lv \<Longrightarrow>
   processLine P pf neg line m =
     (fst (updateMetrics pf neg entry lv m), snd (updateMetrics pf neg entry lv m), [ParsedLine line])"
  by (simp add: processLine_def split: prod.splits)

lemma processLine_panics:
  "P line = Inr entry \<Longrightarrow> labelValuesOf entry = None \<Longrightarrow>
   processLine P pf neg line m = (Panic IndexOutOfRange, m, [])"
  by (simp add: processLine_def)

subsection \<open>The updates, family by family\<close>

lemma observeTimes_eq:
  "observeTimes pf entry lv m =
     m\<lparr>upstreamSeconds := (case FloatField pf entry ''upstream_response_time'' of
                        Inr v \<Rightarrow> (upstreamSeconds m)(lv := upstreamSeconds m lv @ [v])
                      | Inl _ \<Rightarrow> upstreamSeconds m),
       upstreamSecondsHist := (case FloatField pf entry ''upstream_response_time'' of
                        Inr v \<Rightarrow> (upstreamSecondsHist m)(lv := upstreamSecondsHist m lv @ [v])
                      | Inl _ \<Rightarrow> upstreamSecondsHist m),
       responseSeconds := (case FloatField pf entry ''request_time'' of
                        Inr v \<Rightarrow> (responseSeconds m)(lv := responseSeconds m lv @ [v])
                      | Inl _ \<Rightarrow> responseSeconds m),
       responseSecondsHist := (case FloatField pf entry ''request_time'' of
                        Inr v \<Rightarrow> (responseSecondsHist m)(lv := responseSecondsHist m lv @ [v])
                      | Inl _ \<Rightarrow> responseSecondsHist m)\<rparr>"
  by (simp add: observeTimes_def Let_def Observe_def split: sum.splits)

text \<open>
  Whatever the three numeric fields hold, the request count of the label values goes up by
  one.
\<close>

lemma countTotal_updateMetrics:
  "countTotal (snd (updateMetrics pf neg entry lv m)) = (countTotal m)(lv := countTotal m lv + 1)"
  by (simp add: updateMetrics_def observeTimes_eq Let_def Inc_def Add_def split: sum.splits)

text \<open>
  When the body size is absent, not numeric or not below zero, the line finishes and each
  of the other families changes only by the field that feeds it.
\<close>

lemma updateMetrics_regular:
  assumes "case FloatField pf entry ''body_bytes_sent'' of Inr v \<Rightarrow> \<not> neg v | Inl _ \<Rightarrow> True"
  shows "updateMetrics pf neg entry lv m =
    (Next,
     m\<lparr>countTotal := (countTotal m)(lv := countTotal m lv + 1),
       bytesTotal := (case FloatField pf entry ''body_bytes_sent'' of
                        Inr v \<Rightarrow> (bytesTotal m)(lv := bytesTotal m lv @ [v])
                      | Inl _ \<Rightarrow> bytesTotal m),
       upstreamSeconds := (case FloatField pf entry ''upstream_response_time'' of
                        Inr v \<Rightarrow> (upstreamSeconds m)(lv := upstreamSeconds m lv @ [v])
                      | Inl _ \<Rightarrow> upstreamSeconds m),
       upstreamSecondsHist := (case FloatField pf entry ''upstream_response_time'' of
                        Inr v \<Rightarrow> (upstreamSecondsHist m)(lv := upstreamSecondsHist m lv @ [v])
                      | Inl _ \<Rightarrow> upstreamSecondsHist m),
       responseSeconds := (case FloatField pf entry ''request_time'' of
                        Inr v \<Rightarrow> (responseSeconds m)(lv := responseSeconds m lv @ [v])
                      | Inl _ \<Rightarrow> responseSeconds m),
       responseSecondsHist := (case FloatField pf entry ''request_time'' of
                        Inr v \<Rightarrow> (responseSecondsHist m)(lv := responseSecondsHist m lv @ [v])
                      | Inl _ \<Rightarrow> responseSecondsHist m)\<rparr>)"
  using assms
  by (auto simp: updateMetrics_def observeTimes_eq Let_def Inc_def Add_def split: sum.splits)

text \<open>A body size below zero: the line is counted, then abandoned.\<close>

lemma updateMetrics_negative:
  "FloatField pf entry ''body_bytes_sent'' = Inr v \<Longrightarrow> neg v \<Longrightarrow>
   updateMetrics pf neg entry lv m =
     (Panic CounterDecrease, m\<lparr>countTotal := (countTotal m)(lv := countTotal m lv + 1)\<rparr>)"
  by (simp add: updateMetrics_def Let_def Inc_def Add_def)

text \<open>Every vector keeps its old state at every key but the label values.\<close>

lemma updateMetrics_frame:
  "bytesTotal (snd (updateMetrics pf neg entry lv m))
     = (bytesTotal m)(lv := bytesTotal (snd (updateMetrics pf neg entry lv m)) lv)"
  "upstreamSeconds (snd (updateMetrics pf neg entry lv m))
     = (upstreamSeconds m)(lv := upstreamSeconds (snd (updateMetrics pf neg entry lv m)) lv)"
  "upstreamSecondsHist (snd (updateMetrics pf neg entry lv m))
     = (upstreamSecondsHist m)(lv := upstreamSecondsHist (snd (updateMetrics pf neg entry lv m)) lv)"
  "responseSeconds (snd (updateMetrics pf neg entry lv m))
     = (responseSeconds m)(lv := responseSeconds (snd (updateMetrics pf neg entry lv m)) lv)"
  "responseSecondsHist (snd (updateMetrics pf neg entry lv m))
     = (responseSecondsHist m)(lv := responseSecondsHist (snd (updateMetrics pf neg entry lv m)) lv)"
  "upstreamBytes (snd (updateMetrics pf neg entry lv m)) = upstreamBytes m"
  "responseBytes (snd (updateMetrics pf neg entry lv m)) = responseBytes m"
  "parseErrorsTotal (snd (updateMetrics pf neg entry lv m)) = parseErrorsTotal m"
  by (simp_all add: updateMetrics_def observeTimes_eq Let_def Inc_def Add_def split: sum.splits)

lemma updateMetrics_upstream:
  assumes "entry ''upstream_response_time'' = None"
  shows "upstreamSeconds (snd (updateMetrics pf neg entry lv m)) = upstreamSeconds m"
    and "upstreamSecondsHist (snd (updateMetrics pf neg entry lv m)) = upstreamSecondsHist m"
proof -
  have "FloatField pf entry ''upstream_response_time'' = Inl (FieldError ''upstream_response_time'')"
    using assms by (simp add: FloatField_def Field_def)
  then show "upstreamSeconds (snd (updateMetrics pf neg entry lv m)) = upstreamSeconds m"
    and "upstreamSecondsHist (snd (updateMetrics pf neg entry lv m)) = upstreamSecondsHist m"
    by (simp_all add: updateMetrics_def observeTimes_eq Let_def Add_def split: sum.splits)
qed

text \<open>A line whose label values are derived is counted once, whatever its numeric fields hold.\<close>

lemma derived_line_counted:
  assumes "P line = Inr entry" and "labelValuesOf entry = Some lv"
  shows "countTotal (fst (snd (processLine P pf neg line m))) = (countTotal m)(lv := countTotal m lv + 1)"
  using assms by (simp add: processLine_accepted countTotal_updateMetrics)

subsection \<open>The default format\<close>

lemma upstream_not_declared: "''upstream_response_time'' \<notin> set (placeholders Format)"
  by (simp add: Format_def identChar_def)

lemma processLine_upstream:
  assumes "\<And>entry. P line = Inr entry \<Longrightarrow> entry ''upstream_response_time'' = None"
  shows "upstreamSeconds (fst (snd (processLine P pf neg line m))) = upstreamSeconds m
       \<and> upstreamSecondsHist (fst (snd (processLine P pf neg line m))) = upstreamSecondsHist m"
proof (cases "P line")
  case (Inl err)
  then show ?thesis by (simp add: processLine_def)
next
  case (Inr entry)
  show ?thesis
  proof (cases "labelValuesOf entry")
    case None
    with Inr show ?thesis by (simp add: processLine_def)
  next
    case (Some lv)
    with Inr assms [OF Inr] show ?thesis
      by (simp add: processLine_accepted updateMetrics_upstream)
  qed
qed

lemma processLogFile_upstream:
  assumes "\<And>line entry. P line = Inr entry \<Longrightarrow> entry ''upstream_response_time'' = None"
  shows "upstreamSeconds (fst (snd (processLogFile P pf neg lines m))) = upstreamSeconds m
       \<and> upstreamSecondsHist (fst (snd (processLogFile P pf neg lines m))) = upstreamSecondsHist m"
proof (induction lines arbitrary: m)
  case Nil
  show ?case by simp
next
  case (Cons line rest)
  obtain oc m' out where step: "processLine P pf neg line m = (oc, m', out)"
    by (cases "processLine P pf neg line m") auto
  have keep: "upstreamSeconds m' = upstreamSeconds m \<and> upstreamSecondsHist m' = upstreamSecondsHist m"
    using processLine_upstream [of P line pf neg m] assms step by simp
  show ?case
  proof (cases oc)
    case Next
    obtain oc2 m2 out2 where rest: "processLogFile P pf neg rest m' = (oc2, m2, out2)"
      by (cases "processLogFile P pf neg rest m'") auto
    from Cons.IH [of m'] rest keep step Next show ?thesis by simp
  next
    case (Exit n)
    with step keep show ?thesis by simp
  next
    case (Panic p)
    with step keep show ?thesis by simp
  qed
qed

text \<open>White space beyond ASCII splits as well: a request of one no-break space holds no token.\<close>

lemma no_break_space_request:
  "Fields [CHR 0xC2, CHR 0xA0] = []"
  "Fields (''GET'' @ [CHR 0xC2, CHR 0xA0] @ ''/x'') = [''GET'', ''/x'']"
  by (simp_all add: Fields_def spaceWidth_def asciiSpace_def unicodeSpace_def)

subsection \<open>The matcher on the spec's other examples\<close>

text \<open>
  The line \<open>abc\<close> does not match the template \<open>$status $request_time\<close>: it ends before
  the space that closes the first field.
\<close>

lemma short_line_rejected:
  "ParseString [FieldToken ''status'', LiteralToken '' '', FieldToken ''request_time''] ''abc''
     = Inl (ParseError ''abc'' ''line ends before the boundary: abc'')"
  by (simp add: ParseString_def boundary_def)

text \<open>
  A request in double quotes is read up to the closing quote, and its first token is the
  method label.
\<close>

lemma quoted_request:
  "NewParser (''$status '' @ [CHR 0x22] @ ''$request'' @ [CHR 0x22])
     = Inr [FieldToken ''status'', LiteralToken [CHR '' '', CHR 0x22], FieldToken ''request'',
            LiteralToken [CHR 0x22]]"
  "ParseString [FieldToken ''status'', LiteralToken [CHR '' '', CHR 0x22], FieldToken ''request'',
                LiteralToken [CHR 0x22]]
       (''200 '' @ [CHR 0x22] @ ''GET /x HTTP/1.1'' @ [CHR 0x22])
     = Inr [''status'' \<mapsto> ''200'', ''request'' \<mapsto> ''GET /x HTTP/1.1'']"
  "labelValuesOf [''status'' \<mapsto> ''200'', ''request'' \<mapsto> ''GET /x HTTP/1.1''] = Some [''200'', ''GET'']"
  by (simp_all add: NewParser_def identChar_def ParseString_def boundary_def closing_def
      labelValuesOf_def Field_def Fields_def spaceWidth_def asciiSpace_def unicodeSpace_def
      replicate_two)

section \<open>The claims\<close>

text \<open>
  Claim C1: a line the parser rejects is logged, adds one to the parse-error counter,
  changes no other metric, and the loop goes on with the next line.

  The code stops instead. With a parser that rejects \<open>abc\<close>, the lines \<open>abc\<close> and
  \<open>200\<close> end in \<^verbatim>\<open>os.Exit(1)\<close> at the first line: the failure is logged, the
  parse-error counter still reads what it read before, and the second line is never
  counted.
\<close>

theorem parse_error_ends_process:
  "(let r = processLogFile
              (\<lambda>l. if l = ''abc'' then Inl (ParseError l ''no match'') else Inr [''status'' \<mapsto> l])
              (\<lambda>_. None) (\<lambda>v. v < 0) [''abc'', ''200''] (Init :: real Metrics)
    in fst r = Exit 1
     \<and> parseErrorsTotal (fst (snd r)) = parseErrorsTotal (Init :: real Metrics)
     \<and> countTotal (fst (snd r)) [''200'', ''''] = 0
     \<and> snd (snd r) = [ParseFailure ''abc'' (ParseError ''abc'' ''no match'')])"
  by (simp add: processLine_def Init_def)

text \<open>
  Claim C3: deriving the label values never aborts the line; the method label is the
  first token of the request field and is empty when the field is absent, empty or white
  space only.

  The code panics on an entry whose request field is empty or holds white space only:
  element 0 of the empty slice is read. The line is abandoned with the metrics as they
  were.
\<close>

theorem empty_request_panics:
  "labelValuesOf [''status'' \<mapsto> ''400'', ''request'' \<mapsto> ''''] = None
   \<and> labelValuesOf [''status'' \<mapsto> ''400'', ''request'' \<mapsto> ''  ''] = None
   \<and> processLine (\<lambda>_. Inr [''status'' \<mapsto> ''400'', ''request'' \<mapsto> '''']) pf neg line m
       = (Panic IndexOutOfRange, m, [])"
  by (simp add: processLine_def labelValuesOf_def Field_def Fields_def spaceWidth_def asciiSpace_def)

text \<open>
  Claim C4: every line the parser accepts adds exactly one to the request count of its
  label values.

  An accepted line whose request field is a single space is not counted: the loop ends in
  a panic before the increment, and the line after it is not read.
\<close>

theorem blank_request_not_counted:
  "(let r = processLogFile
              (\<lambda>_. Inr [''status'' \<mapsto> ''200'', ''request'' \<mapsto> '' '', ''body_bytes_sent'' \<mapsto> ''5''])
              (\<lambda>_. None) (\<lambda>v. v < 0) [''first'', ''second''] (Init :: real Metrics)
    in fst r = Panic IndexOutOfRange \<and> countTotal (fst (snd r)) = (\<lambda>_. 0))"
  by (simp add: processLine_def labelValuesOf_def Field_def Fields_def spaceWidth_def
      asciiSpace_def Init_def)

text \<open>
  Claim C5: on an accepted line the three numeric fields are read independently; a field
  that is absent or not numeric skips its own update only, and the line is not aborted.

  On an accepted line with an empty request field, no upstream time and a numeric body
  size, the body size is never added: the line is abandoned in a panic before any numeric
  field is read.
\<close>

theorem blank_request_skips_numeric_updates:
  "FloatField (\<lambda>s. if s = ''5'' then Some (5::real) else None)
      [''request'' \<mapsto> '''', ''body_bytes_sent'' \<mapsto> ''5''] ''upstream_response_time''
     = Inl (FieldError ''upstream_response_time'')
   \<and> FloatField (\<lambda>s. if s = ''5'' then Some (5::real) else None)
      [''request'' \<mapsto> '''', ''body_bytes_sent'' \<mapsto> ''5''] ''body_bytes_sent'' = Inr 5
   \<and> processLine (\<lambda>_. Inr [''request'' \<mapsto> '''', ''body_bytes_sent'' \<mapsto> ''5''])
        (\<lambda>s. if s = ''5'' then Some (5::real) else None) (\<lambda>v. v < 0) line m
       = (Panic IndexOutOfRange, m, [])"
  by (simp add: processLine_def labelValuesOf_def Field_def FloatField_def Fields_def)

text \<open>
  Claim C7: the template \<open>$status $request_time\<close> compiles to the plan of the field
  status, a space and the field request_time; matching the line \<open>200 0.123\<close> against it
  yields exactly the fields status \<open>200\<close> and request_time \<open>0.123\<close>; and when that text
  reads as the number 0.123, processing the line with this parser adds one to the request
  count of the label values (\<open>200\<close>, empty method), records 0.123 in the response-time
  summary and in the response-time histogram, and changes nothing else.
\<close>

theorem status_and_request_time:
  assumes "pf ''0.123'' = Some (0.123 :: real)"
  shows "NewParser ''$status $request_time''
           = Inr [FieldToken ''status'', LiteralToken '' '', FieldToken ''request_time'']
       \<and> ParseString [FieldToken ''status'', LiteralToken '' '', FieldToken ''request_time'']
             ''200 0.123''
           = Inr [''status'' \<mapsto> ''200'', ''request_time'' \<mapsto> ''0.123'']
       \<and> processLine
             (ParseString [FieldToken ''status'', LiteralToken '' '', FieldToken ''request_time''])
             pf neg ''200 0.123'' m
           = (Next,
              m\<lparr>countTotal := (countTotal m)([''200'', ''''] := countTotal m [''200'', ''''] + 1),
                responseSeconds :=
                  (responseSeconds m)([''200'', ''''] := responseSeconds m [''200'', ''''] @ [0.123]),
                responseSecondsHist :=
                  (responseSecondsHist m)([''200'', ''''] := responseSecondsHist m [''200'', ''''] @ [0.123])\<rparr>,
              [ParsedLine ''200 0.123''])"
proof -
  have plan: "NewParser ''$status $request_time''
           = Inr [FieldToken ''status'', LiteralToken '' '', FieldToken ''request_time'']"
    by (simp add: NewParser_def identChar_def)
  have fields: "ParseString [FieldToken ''status'', LiteralToken '' '', FieldToken ''request_time'']
             ''200 0.123''
           = Inr [''status'' \<mapsto> ''200'', ''request_time'' \<mapsto> ''0.123'']"
    by (simp add: ParseString_def boundary_def closing_def)
  have lv: "labelValuesOf [''status'' \<mapsto> ''200'', ''request_time'' \<mapsto> ''0.123''] = Some [''200'', '''']"
    by (simp add: labelValuesOf_def Field_def Let_def replicate_two)
  have upd: "updateMetrics pf neg [''status'' \<mapsto> ''200'', ''request_time'' \<mapsto> ''0.123''] [''200'', ''''] m
      = (Next,
              m\<lparr>countTotal := (countTotal m)([''200'', ''''] := countTotal m [''200'', ''''] + 1),
                responseSeconds :=
                  (responseSeconds m)([''200'', ''''] := responseSeconds m [''200'', ''''] @ [0.123]),
                responseSecondsHist :=
                  (responseSecondsHist m)([''200'', ''''] := responseSecondsHist m [''200'', ''''] @ [0.123])\<rparr>)"
    using assms
    by (simp add: updateMetrics_def observeTimes_def Field_def FloatField_def Let_def
        Inc_def Observe_def)
  have line: "processLine
             (ParseString [FieldToken ''status'', LiteralToken '' '', FieldToken ''request_time''])
             pf neg ''200 0.123'' m
      = (fst (updateMetrics pf neg [''status'' \<mapsto> ''200'', ''request_time'' \<mapsto> ''0.123''] [''200'', ''''] m),
         snd (updateMetrics pf neg [''status'' \<mapsto> ''200'', ''request_time'' \<mapsto> ''0.123''] [''200'', ''''] m),
         [ParsedLine ''200 0.123''])"
    using fields lv by (rule processLine_accepted)
  from plan fields line show ?thesis
    by (simp add: upd)
qed

theorem status_and_request_time_witness:
  "processLine
      (ParseString [FieldToken ''status'', LiteralToken '' '', FieldToken ''request_time''])
      (\<lambda>s. if s = ''0.123'' then Some (0.123 :: real) else None) (\<lambda>v. v < 0) ''200 0.123'' Init =
    (Next,
     Init\<lparr>countTotal := (\<lambda>_. 0)([''200'', ''''] := 1),
       responseSeconds := (\<lambda>_. [])([''200'', ''''] := [0.123]),
       responseSecondsHist := (\<lambda>_. [])([''200'', ''''] := [0.123])\<rparr>,
     [ParsedLine ''200 0.123''])"
  using status_and_request_time [of
      "\<lambda>s. if s = ''0.123'' then Some (0.123 :: real) else None" "\<lambda>v. v < 0" Init]
  by (simp add: Init_def)

text \<open>
  Claim C9: all the vector updates made for one line use one tuple of label values; it
  has as many elements as the vectors have label names, and it pairs the registered name
  \<open>status\<close> with the status field and \<open>method\<close> with element 0 of the pieces of the
  request field. A line that is rejected, or abandoned before its label values are
  derived, updates no vector at all.
\<close>

theorem one_label_tuple_per_line:
  "(let m' = fst (snd (processLine P pf neg line m)) in
    case P line of
      Inl err \<Rightarrow> m' = m
    | Inr entry \<Rightarrow>
        (case labelValuesOf entry of
           None \<Rightarrow> m' = m
         | Some lv \<Rightarrow>
             length lv = length labels
           \<and> zip labels lv =
               [(''status'', case entry ''status'' of None \<Rightarrow> [] | Some status \<Rightarrow> status),
                (''method'', case entry ''request'' of None \<Rightarrow> []
                             | Some request \<Rightarrow>
                                 (case Fields request of [] \<Rightarrow> [] | chunk # _ \<Rightarrow> chunk))]
           \<and> countTotal m' = (countTotal m)(lv := countTotal m lv + 1)
           \<and> bytesTotal m' = (bytesTotal m)(lv := bytesTotal m' lv)
           \<and> upstreamSeconds m' = (upstreamSeconds m)(lv := upstreamSeconds m' lv)
           \<and> upstreamSecondsHist m' = (upstreamSecondsHist m)(lv := upstreamSecondsHist m' lv)
           \<and> upstreamBytes m' = upstreamBytes m
           \<and> responseSeconds m' = (responseSeconds m)(lv := responseSeconds m' lv)
           \<and> responseSecondsHist m' = (responseSecondsHist m)(lv := responseSecondsHist m' lv)
           \<and> responseBytes m' = responseBytes m))"
proof (cases "P line")
  case (Inl err)
  then show ?thesis by (simp add: processLine_def)
next
  case (Inr entry)
  show ?thesis
  proof (cases "labelValuesOf entry")
    case None
    with Inr show ?thesis by (simp add: processLine_def)
  next
    case (Some lv)
    have shape: "lv = [case entry ''status'' of None \<Rightarrow> [] | Some s \<Rightarrow> s,
           case entry ''request'' of None \<Rightarrow> []
           | Some r \<Rightarrow> (case Fields r of [] \<Rightarrow> [] | chunk # _ \<Rightarrow> chunk)]"
      using Some by (rule labelValuesOf_Some)
    have m': "fst (snd (processLine P pf neg line m)) = snd (updateMetrics pf neg entry lv m)"
      using Inr Some by (simp add: processLine_accepted)
    have len: "length lv = length labels"
      by (subst shape) (simp add: labels_eq)
    have zp: "zip labels lv =
               [(''status'', case entry ''status'' of None \<Rightarrow> [] | Some status \<Rightarrow> status),
                (''method'', case entry ''request'' of None \<Rightarrow> []
                             | Some request \<Rightarrow>
                                 (case Fields request of [] \<Rightarrow> [] | chunk # _ \<Rightarrow> chunk))]"
      by (subst shape) (simp add: labels_eq)
    show ?thesis
      using Inr Some len zp updateMetrics_frame [of pf neg entry lv m]
      by (simp add: m' Let_def countTotal_updateMetrics)
  qed
qed

text \<open>
  Claim C10: with a parser whose entries hold only fields that the default format
  declares, reading \<open>upstream_response_time\<close> fails on every entry, and however many
  lines are processed the upstream-time summary and histogram stay as they were.
\<close>

theorem default_format_skips_upstream:
  assumes "\<And>line entry. P line = Inr entry \<Longrightarrow> dom entry \<subseteq> set (placeholders Format)"
  shows "upstreamSeconds (fst (snd (processLogFile P pf neg lines m))) = upstreamSeconds m
       \<and> upstreamSecondsHist (fst (snd (processLogFile P pf neg lines m))) = upstreamSecondsHist m
       \<and> (\<forall>line entry. P line = Inr entry \<longrightarrow>
            FloatField pf entry ''upstream_response_time'' = Inl (FieldError ''upstream_response_time''))"
proof -
  have absent: "entry ''upstream_response_time'' = None" if "P line = Inr entry" for line entry
    using assms [OF that] upstream_not_declared by (auto simp: dom_def)
  have "FloatField pf entry ''upstream_response_time'' = Inl (FieldError ''upstream_response_time'')"
    if "P line = Inr entry" for line entry
    using absent [OF that] by (simp add: FloatField_def Field_def)
  then have "\<forall>line entry. P line = Inr entry \<longrightarrow>
            FloatField pf entry ''upstream_response_time'' = Inl (FieldError ''upstream_response_time'')"
    by blast
  with processLogFile_upstream [of P pf neg lines m] absent show ?thesis by blast
qed

theorem default_format_skips_upstream_witness:
  "upstreamSeconds (fst (snd (processLogFile
        (\<lambda>line. if line = ''bad'' then Inl (ParseError line ''no match'')
                 else Inr [''status'' \<mapsto> line, ''request_time'' \<mapsto> ''0.5''])
        (\<lambda>s. if s = ''0.5'' then Some (0.5::real) else None) (\<lambda>v. v < 0)
        [''200'', ''404''] Init))) = (\<lambda>_. [])
   \<and> responseSeconds (fst (snd (processLogFile
        (\<lambda>line. if line = ''bad'' then Inl (ParseError line ''no match'')
                 else Inr [''status'' \<mapsto> line, ''request_time'' \<mapsto> ''0.5''])
        (\<lambda>s. if s = ''0.5'' then Some (0.5::real) else None) (\<lambda>v. v < 0)
        [''200'', ''404''] Init))) [''200'', '''']
      = [0.5]"
proof -
  let ?P = "\<lambda>line. if line = ''bad'' then Inl (ParseError line ''no match'')
                 else Inr [''status'' \<mapsto> line, ''request_time'' \<mapsto> ''0.5'']"
  have decl: "dom entry \<subseteq> set (placeholders Format)" if "?P line = Inr entry" for line entry
    using that by (auto simp: Format_def identChar_def split: if_splits)
  have "upstreamSeconds (fst (snd (processLogFile ?P
        (\<lambda>s. if s = ''0.5'' then Some (0.5::real) else None) (\<lambda>v. v < 0) [''200'', ''404''] Init)))
      = upstreamSeconds (Init :: real Metrics)"
    by (rule default_format_skips_upstream [of ?P, OF decl, THEN conjunct1])
  moreover have "responseSeconds (fst (snd (processLogFile ?P
        (\<lambda>s. if s = ''0.5'' then Some (0.5::real) else None) (\<lambda>v. v < 0) [''200'', ''404''] Init)))
          [''200'', '''']
      = [0.5]"
    by (simp add: processLine_def labelValuesOf_def Field_def FloatField_def replicate_two
        Let_def updateMetrics_def observeTimes_def Inc_def Observe_def Add_def Init_def)
  ultimately show ?thesis by (simp add: Init_def)
qed

end
